theory Spec2Isabelle
  imports Complex_Main "HOL-Library.List_Lexorder"
begin

section \<open>Values, errors and numbers\<close>

text \<open>
  The module \<^verbatim>\<open>src/app/_lib/queries.ts\<close> exports five asynchronous operations. An
  \<^verbatim>\<open>await\<close> either yields a value or throws; a computation is therefore a value of
  \<open>error + 'a\<close>, with \<open>Inl\<close> for the thrown error. \<open>and_then\<close> sequences two
  computations as consecutive statements do, \<open>try_catch\<close> is the \<^verbatim>\<open>try { } catch (err) { }\<close>
  block whose handler returns a value.
\<close>

datatype error = StorageError string | RuntimeError string

definition and_then :: "error + 'a \<Rightarrow> ('a \<Rightarrow> error + 'b) \<Rightarrow> error + 'b" where
  "and_then m f = (case m of Inl e \<Rightarrow> Inl e | Inr v \<Rightarrow> f v)"

definition try_catch :: "error + 'a \<Rightarrow> (error \<Rightarrow> 'a) \<Rightarrow> error + 'a" where
  "try_catch body handler = (case body of Inl e \<Rightarrow> Inr (handler e) | Inr v \<Rightarrow> Inr v)"

text \<open>
  A JavaScript \<^verbatim>\<open>number\<close> that results from \<^verbatim>\<open>Math.ceil(total / per_page)\<close> with an
  integer \<^verbatim>\<open>per_page\<close> and a row count \<^verbatim>\<open>total\<close>: a finite integer, \<^verbatim>\<open>Infinity\<close>
  (a positive count divided by zero) or \<^verbatim>\<open>NaN\<close> (zero divided by zero). Page numbers,
  page sizes and counts are integers here, as the request's invariant says; the division
  is the exact one, which the double-precision division agrees with below \<open>2^53\<close>.
\<close>

datatype number = Fin int | PosInfinity | NaN

definition math_ceil_div :: "nat \<Rightarrow> int \<Rightarrow> number" where
  "math_ceil_div tot per_page =
     (if per_page = 0 then (if tot = 0 then NaN else PosInfinity)
      else Fin \<lceil>real tot / real_of_int per_page\<rceil>)"

text \<open>A string in a condition position: \<^verbatim>\<open>undefined\<close> and \<^verbatim>\<open>""\<close> are falsy.\<close>

definition truthy :: "string option \<Rightarrow> string option" where
  "truthy s = (case s of None \<Rightarrow> None | Some v \<Rightarrow> (if v = [] then None else Some v))"

text \<open>\<^verbatim>\<open>String.prototype.split\<close> on a one-character separator: \<^verbatim>\<open>"".split(".")\<close> is \<^verbatim>\<open>[""]\<close>.\<close>

fun split_on :: "char \<Rightarrow> string \<Rightarrow> string list" where
  "split_on d [] = [[]]"
| "split_on d (c # cs) =
     (if c = d then [] # split_on d cs
      else (case split_on d cs of [] \<Rightarrow> [[c]] | p # ps \<Rightarrow> (c # p) # ps))"

text \<open>Array destructuring: a position past the end of the array is \<^verbatim>\<open>undefined\<close>.\<close>

definition element :: "'a list \<Rightarrow> nat \<Rightarrow> 'a option" where
  "element xs i = (if i < length xs then Some (xs ! i) else None)"

section \<open>The task table\<close>

text \<open>
  Modelled from the spec: the schema module \<^verbatim>\<open>@/db/schema\<close> is not among the sources.
  A task has an identifier, a title, a status, a priority and a creation timestamp; these
  are the five columns \<^verbatim>\<open>queries.ts\<close> names (\<^verbatim>\<open>tasks.id\<close>, \<^verbatim>\<open>tasks.title\<close>,
  \<^verbatim>\<open>tasks.status\<close>, \<^verbatim>\<open>tasks.priority\<close>, \<^verbatim>\<open>tasks.createdAt\<close>).
\<close>

record Task =
  task_id :: string
  task_title :: string
  task_status :: string
  task_priority :: string
  task_createdAt :: int

datatype column = C_id | C_title | C_status | C_priority | C_createdAt

text \<open>
  \<^verbatim>\<open>tasks\<close> is a JavaScript object, and \<^verbatim>\<open>name in tasks\<close> holds for every property
  the object has, its own (the columns) or inherited through the prototype chain, which
  ends in \<^verbatim>\<open>Object.prototype\<close>. \<open>tasks name\<close> is the value of \<^verbatim>\<open>tasks[name]\<close>, \<open>None\<close>
  when there is no such property.
\<close>

datatype property = Column column | Inherited string

definition object_prototype :: "string list" where
  "object_prototype =
     [''constructor'', ''toString'', ''toLocaleString'', ''valueOf'', ''hasOwnProperty'',
      ''isPrototypeOf'', ''propertyIsEnumerable'', ''__proto__'', ''__defineGetter__'',
      ''__defineSetter__'', ''__lookupGetter__'', ''__lookupSetter__'']"

definition tasks :: "string \<Rightarrow> property option" where
  "tasks name =
     (if name = ''id'' then Some (Column C_id)
      else if name = ''title'' then Some (Column C_title)
      else if name = ''status'' then Some (Column C_status)
      else if name = ''priority'' then Some (Column C_priority)
      else if name = ''createdAt'' then Some (Column C_createdAt)
      else if name \<in> set object_prototype then Some (Inherited name)
      else None)"

section \<open>Conditions and statements\<close>

text \<open>
  A condition is what \<^verbatim>\<open>filterColumn\<close> returns (opaque here, of type \<open>'f\<close>), a bound on
  a column by \<^verbatim>\<open>gte\<close> or \<^verbatim>\<open>lte\<close>, or conditions joined by \<^verbatim>\<open>and\<close> or \<^verbatim>\<open>or\<close>.
  \<^verbatim>\<open>new Date(s)\<close> keeps the string it was made from.
\<close>

datatype date = Date string

datatype 'f atom = Filter 'f | Gte column date | Lte column date

datatype 'f SQL = Atom "'f atom" | And "'f SQL list" | Or "'f SQL list"

text \<open>
  The combinators \<^verbatim>\<open>and(...conditions)\<close> and \<^verbatim>\<open>or(...conditions)\<close> of the query builder
  drop the \<^verbatim>\<open>undefined\<close> arguments and return \<^verbatim>\<open>undefined\<close> when nothing is left.
\<close>

definition present :: "'a option list \<Rightarrow> 'a list" where
  "present xs = concat (map (\<lambda>x. case x of None \<Rightarrow> [] | Some v \<Rightarrow> [v]) xs)"

definition and_sql :: "'f SQL option list \<Rightarrow> 'f SQL option" where
  "and_sql conditions = (case present conditions of [] \<Rightarrow> None | c # cs \<Rightarrow> Some (And (c # cs)))"

definition or_sql :: "'f SQL option list \<Rightarrow> 'f SQL option" where
  "or_sql conditions = (case present conditions of [] \<Rightarrow> None | c # cs \<Rightarrow> Some (Or (c # cs)))"

datatype order_by = Asc property | Desc property

datatype 'f statement =
    Begin
  | SelectRows "'f SQL option" order_by int int
  | SelectCount "'f SQL option"
  | Commit
  | CountWhereEq column string
  | GroupCount column

section \<open>The storage collaborator\<close>

text \<open>
  The storage engine is outside the module. Its reference semantics: a table of rows, the
  meaning \<open>sat\<close> of the atomic conditions, and \<open>fault\<close>, which says for each statement
  whether the engine rejects it (a lost connection, a query error) and with which error.
\<close>

record 'f storage =
  table :: "Task list"
  sat :: "'f atom \<Rightarrow> Task \<Rightarrow> bool"
  fault :: "'f statement \<Rightarrow> error option"

fun eval_sql :: "('f atom \<Rightarrow> Task \<Rightarrow> bool) \<Rightarrow> 'f SQL \<Rightarrow> Task \<Rightarrow> bool" where
  "eval_sql s (Atom a) r = s a r"
| "eval_sql s (And cs) r = list_all (\<lambda>c. eval_sql s c r) cs"
| "eval_sql s (Or cs) r = list_ex (\<lambda>c. eval_sql s c r) cs"

text \<open>A query without a \<^verbatim>\<open>where\<close> clause (\<^verbatim>\<open>where(undefined)\<close>) selects every row.\<close>

definition matches :: "'f storage \<Rightarrow> 'f SQL option \<Rightarrow> Task \<Rightarrow> bool" where
  "matches db w r = (case w of None \<Rightarrow> True | Some c \<Rightarrow> eval_sql (sat db) c r)"

definition text_key :: "string \<Rightarrow> int list" where
  "text_key s = map (\<lambda>c. int (of_char c)) s"

fun column_key :: "column \<Rightarrow> Task \<Rightarrow> int list" where
  "column_key C_id r = text_key (task_id r)"
| "column_key C_title r = text_key (task_title r)"
| "column_key C_status r = text_key (task_status r)"
| "column_key C_priority r = text_key (task_priority r)"
| "column_key C_createdAt r = [task_createdAt r]"

text \<open>
  Ordering by a column sorts on its value; the order of rows with equal values is the
  engine's choice (here the one of a stable sort). An ordering term that is no column
  leaves the rows as they are.
\<close>

fun order_rows :: "order_by \<Rightarrow> Task list \<Rightarrow> Task list" where
  "order_rows (Asc (Column c)) rs = sort_key (column_key c) rs"
| "order_rows (Desc (Column c)) rs = rev (sort_key (column_key c) rs)"
| "order_rows (Asc (Inherited n)) rs = rs"
| "order_rows (Desc (Inherited n)) rs = rs"

definition guard :: "'f storage \<Rightarrow> 'f statement \<Rightarrow> error + unit" where
  "guard db st = (case fault db st of Some e \<Rightarrow> Inl e | None \<Rightarrow> Inr ())"

text \<open>
  \<^verbatim>\<open>select().from(tasks).limit(l).offset(k).where(w).orderBy(o)\<close>: filter, order, skip \<open>k\<close>
  rows, keep \<open>l\<close>. A negative limit or offset is an error of the engine.
\<close>

definition select_rows :: "'f storage \<Rightarrow> 'f SQL option \<Rightarrow> order_by \<Rightarrow> int \<Rightarrow> int \<Rightarrow> error + Task list" where
  "select_rows db w ob lmt ofs =
     and_then (guard db (SelectRows w ob lmt ofs)) (\<lambda>_.
       if lmt < 0 \<or> ofs < 0 then Inl (StorageError ''negative limit or offset'')
       else Inr (take (nat lmt) (drop (nat ofs) (order_rows ob (filter (matches db w) (table db))))))"

text \<open>\<^verbatim>\<open>select({count: count()}).from(tasks).where(w)\<close>: one result row, holding the count.\<close>

definition select_count :: "'f storage \<Rightarrow> 'f SQL option \<Rightarrow> error + nat list" where
  "select_count db w =
     and_then (guard db (SelectCount w)) (\<lambda>_. Inr [length (filter (matches db w) (table db))])"

text \<open>
  \<^verbatim>\<open>db.transaction(async (tx) => body)\<close>: begin, run the body, commit; an error of the
  body rolls back and is thrown again.
\<close>

definition transaction :: "'f storage \<Rightarrow> error + 'a \<Rightarrow> error + 'a" where
  "transaction db body =
     and_then (guard db Begin) (\<lambda>_.
     and_then body (\<lambda>r.
     and_then (guard db Commit) (\<lambda>_. Inr r)))"

section \<open>getTasks\<close>

record GetTasksSchema =
  page :: int
  per_page :: int
  sort_str :: "string option"
  title :: "string option"
  status :: "string option"
  priority :: "string option"
  from_date :: "string option"
  to_date :: "string option"
  operator :: "string option"

record QueryResult =
  data :: "Task list"
  pageCount :: number

text \<open>
  \<^verbatim>\<open>filterColumn\<close> (module \<^verbatim>\<open>@/lib/filter-column\<close>, not among the sources) is a parameter:
  given a column, the raw value and the \<^verbatim>\<open>isSelectable\<close> flag it returns a condition,
  \<^verbatim>\<open>undefined\<close>, or throws.
\<close>

type_synonym 'f filterColumn = "column \<Rightarrow> string \<Rightarrow> bool \<Rightarrow> error + 'f SQL option"

text \<open>
  Lines 35 to 38: \<^verbatim>\<open>input.sort?.split(".").filter(Boolean) ?? ["createdAt", "desc"]\<close>,
  destructured into \<^verbatim>\<open>[column, order]\<close>.
\<close>

definition sort_parts :: "string option \<Rightarrow> string option \<times> string option" where
  "sort_parts s =
     (let parts = (case s of None \<Rightarrow> [''createdAt'', ''desc'']
                   | Some str \<Rightarrow> filter (\<lambda>p. p \<noteq> []) (split_on CHR ''.'' str))
      in (element parts 0, element parts 1))"

text \<open>Lines 85 to 89: the argument of \<^verbatim>\<open>orderBy\<close>.\<close>

definition order_by_expr :: "string option \<Rightarrow> string option \<Rightarrow> order_by" where
  "order_by_expr column ord =
     (case truthy column of
        None \<Rightarrow> Desc (Column C_id)
      | Some c \<Rightarrow>
          (case tasks c of
             None \<Rightarrow> Desc (Column C_id)
           | Some p \<Rightarrow> (if ord = Some ''asc'' then Asc p else Desc p)))"

text \<open>Lines 44 to 70: the array \<^verbatim>\<open>expressions\<close>, its elements evaluated left to right.\<close>

definition filter_term :: "'f filterColumn \<Rightarrow> column \<Rightarrow> string option \<Rightarrow> bool \<Rightarrow> error + 'f SQL option" where
  "filter_term filterColumn c v sel =
     (case truthy v of None \<Rightarrow> Inr None | Some x \<Rightarrow> filterColumn c x sel)"

definition expressions :: "'f filterColumn \<Rightarrow> GetTasksSchema \<Rightarrow> error + 'f SQL option list" where
  "expressions filterColumn input =
     (let fromDate = map_option Date (truthy (from_date input));
          toDate = map_option Date (truthy (to_date input))
      in and_then (filter_term filterColumn C_title (title input) False) (\<lambda>e1.
         and_then (filter_term filterColumn C_status (status input) True) (\<lambda>e2.
         and_then (filter_term filterColumn C_priority (priority input) True) (\<lambda>e3.
           Inr [e1, e2, e3,
                map_option (\<lambda>d. Atom (Gte C_createdAt d)) fromDate,
                map_option (\<lambda>d. Atom (Lte C_createdAt d)) toDate]))))"

text \<open>Lines 71 to 74: the \<^verbatim>\<open>where\<close> clause.\<close>

definition where_clause :: "string option \<Rightarrow> 'f SQL option list \<Rightarrow> 'f SQL option" where
  "where_clause op exprs =
     (if truthy op = None \<or> op = Some ''and'' then and_sql exprs else or_sql exprs)"

text \<open>
  The body of the \<^verbatim>\<open>try\<close> block, lines 30 to 108. \<^verbatim>\<open>noStore()\<close>, called before it,
  only marks the response as not cacheable.
\<close>

definition getTasks_body :: "'f filterColumn \<Rightarrow> 'f storage \<Rightarrow> GetTasksSchema \<Rightarrow> error + QueryResult" where
  "getTasks_body filterColumn db input =
     (let offset = (page input - 1) * per_page input;
          (column, ord) = sort_parts (sort_str input)
      in and_then (expressions filterColumn input) (\<lambda>exprs.
         let wh = where_clause (operator input) exprs
         in and_then
              (transaction db
                 (and_then (select_rows db wh (order_by_expr column ord) (per_page input) offset) (\<lambda>rows.
                  and_then (select_count db wh) (\<lambda>res.
                    let tot = (case res of [] \<Rightarrow> 0 | c # _ \<Rightarrow> c)
                    in Inr (rows, tot)))))
              (\<lambda>(rows, tot).
                 Inr \<lparr>data = rows, pageCount = math_ceil_div tot (per_page input)\<rparr>)))"

definition getTasks :: "'f filterColumn \<Rightarrow> 'f storage \<Rightarrow> GetTasksSchema \<Rightarrow> error + QueryResult" where
  "getTasks filterColumn db input =
     try_catch (getTasks_body filterColumn db input) (\<lambda>err. \<lparr>data = [], pageCount = Fin 0\<rparr>)"

text \<open>
  What \<^verbatim>\<open>getTasks\<close> hands to the storage engine: the \<^verbatim>\<open>where\<close> clause (no clause when
  building the conditions throws) and the ordering term.
\<close>

definition getTasks_where :: "'f filterColumn \<Rightarrow> GetTasksSchema \<Rightarrow> 'f SQL option" where
  "getTasks_where filterColumn input =
     (case expressions filterColumn input of
        Inl e \<Rightarrow> None
      | Inr exprs \<Rightarrow> where_clause (operator input) exprs)"

definition getTasks_orderBy :: "GetTasksSchema \<Rightarrow> order_by" where
  "getTasks_orderBy input = (let (column, ord) = sort_parts (sort_str input) in order_by_expr column ord)"

text \<open>The rows the \<^verbatim>\<open>where\<close> clause selects; their number is \<^verbatim>\<open>total\<close>.\<close>

definition matching_rows :: "'f filterColumn \<Rightarrow> 'f storage \<Rightarrow> GetTasksSchema \<Rightarrow> Task list" where
  "matching_rows filterColumn db input = filter (matches db (getTasks_where filterColumn input)) (table db)"

text \<open>
  A storage failure during the fetch: the engine rejects one of the statements of the
  transaction, by a fault or because the limit or the offset is negative.
\<close>

definition rejects :: "'f storage \<Rightarrow> 'f statement \<Rightarrow> bool" where
  "rejects db st = (case fault db st of None \<Rightarrow> False | Some e \<Rightarrow> True)"

definition storage_rejects :: "'f filterColumn \<Rightarrow> 'f storage \<Rightarrow> GetTasksSchema \<Rightarrow> bool" where
  "storage_rejects filterColumn db input =
     (rejects db Begin \<or>
      rejects db (SelectRows (getTasks_where filterColumn input) (getTasks_orderBy input)
                    (per_page input) ((page input - 1) * per_page input)) \<or>
      per_page input < 0 \<or> (page input - 1) * per_page input < 0 \<or>
      rejects db (SelectCount (getTasks_where filterColumn input)) \<or>
      rejects db Commit)"

text \<open>
  The default order in the spec's words: creation time descending, ties broken by
  identifier descending.
\<close>

definition spec_default_order :: "Task list \<Rightarrow> Task list" where
  "spec_default_order rs = rev (sort_key (\<lambda>r. task_createdAt r # column_key C_id r) rs)"

section \<open>Aggregate counts\<close>

text \<open>
  \<^verbatim>\<open>groupBy(col)\<close> with \<^verbatim>\<open>count()\<close>: one result row for each value that occurs in the
  column, with the number of rows holding it.
\<close>

definition group_counts :: "(Task \<Rightarrow> string) \<Rightarrow> Task list \<Rightarrow> (string \<times> nat) list" where
  "group_counts key rs = map (\<lambda>k. (k, length (filter (\<lambda>r. key r = k) rs))) (remdups (map key rs))"

text \<open>
  \<^verbatim>\<open>selectDistinct({count: count()}).from(tasks).where(eq(col, v)).groupBy(col).having(gt(count(col), 0))\<close>;
  \<open>key\<close> reads the column \<open>c\<close> of a row.
\<close>

definition select_count_eq :: "'f storage \<Rightarrow> column \<Rightarrow> (Task \<Rightarrow> string) \<Rightarrow> string \<Rightarrow> error + nat list" where
  "select_count_eq db c key v =
     and_then (guard db (CountWhereEq c v)) (\<lambda>_.
       Inr (remdups (map snd (filter (\<lambda>(k, n). n > 0)
              (group_counts key (filter (\<lambda>r. key r = v) (table db)))))))"

text \<open>\<^verbatim>\<open>select({col, count: count()}).from(tasks).groupBy(col).having(gt(count(), 0))\<close>.\<close>

definition select_group_count :: "'f storage \<Rightarrow> column \<Rightarrow> (Task \<Rightarrow> string) \<Rightarrow> error + (string \<times> nat) list" where
  "select_group_count db c key =
     and_then (guard db (GroupCount c)) (\<lambda>_.
       Inr (filter (\<lambda>(k, n). n > 0) (group_counts key (table db))))"

text \<open>\<^verbatim>\<open>res[0]?.count ?? 0\<close>.\<close>

definition first_count :: "nat list \<Rightarrow> nat" where
  "first_count res = (case res of [] \<Rightarrow> 0 | c # _ \<Rightarrow> c)"

text \<open>\<^verbatim>\<open>res.reduce((acc, {key, count}) => { acc[key] = count; return acc }, {})\<close>.\<close>

definition reduce_counts :: "(string \<times> nat) list \<Rightarrow> (string \<rightharpoonup> nat)" where
  "reduce_counts res = fold (\<lambda>(k, n) acc. acc(k \<mapsto> n)) res Map.empty"

text \<open>The four callbacks handed to \<^verbatim>\<open>cache\<close>, each a \<^verbatim>\<open>try\<close> block with its handler.\<close>

definition getTaskCountByStatus_callback :: "'f storage \<Rightarrow> string \<Rightarrow> error + nat" where
  "getTaskCountByStatus_callback db st =
     try_catch (and_then (select_count_eq db C_status task_status st) (\<lambda>res. Inr (first_count res)))
       (\<lambda>err. 0)"

definition getTaskCountByPriority_callback :: "'f storage \<Rightarrow> string \<Rightarrow> error + nat" where
  "getTaskCountByPriority_callback db pr =
     try_catch (and_then (select_count_eq db C_priority task_priority pr) (\<lambda>res. Inr (first_count res)))
       (\<lambda>err. 0)"

definition getTaskStatusCounts_callback :: "'f storage \<Rightarrow> error + (string \<rightharpoonup> nat)" where
  "getTaskStatusCounts_callback db =
     try_catch (and_then (select_group_count db C_status task_status) (\<lambda>res. Inr (reduce_counts res)))
       (\<lambda>err. Map.empty)"

definition getTaskPriorityCounts_callback :: "'f storage \<Rightarrow> error + (string \<rightharpoonup> nat)" where
  "getTaskPriorityCounts_callback db =
     try_catch (and_then (select_group_count db C_priority task_priority) (\<lambda>res. Inr (reduce_counts res)))
       (\<lambda>err. Map.empty)"

section \<open>The result cache\<close>

text \<open>
  Modelled from the spec: \<^verbatim>\<open>unstable_cache\<close> of \<^verbatim>\<open>next/cache\<close> is the framework's, not
  this module's. An entry holds a value, its expiry time and its tags; it is created on
  the first miss, read on a hit before it expires, and removed early when one of its tags
  is invalidated. The framework's key is made of the callback's source text and the key
  parts; \<open>operation\<close> stands for the four callbacks.
\<close>

datatype cached = Count nat | Counts "string \<rightharpoonup> nat"

datatype operation = CountByStatus | CountByPriority | StatusCounts | PriorityCounts

record entry =
  cached_value :: cached
  expiresAt :: nat
  tags :: "string list"

type_synonym cache_store = "operation \<times> string list \<rightharpoonup> entry"

definition unstable_cache ::
  "error + cached \<Rightarrow> operation \<Rightarrow> string list \<Rightarrow> nat \<Rightarrow> string list \<Rightarrow> cache_store \<Rightarrow> nat
     \<Rightarrow> error + cached \<times> cache_store" where
  "unstable_cache cb opn keyParts revalidate tgs store now =
     (let miss = and_then cb (\<lambda>v.
            Inr (v, store((opn, keyParts) \<mapsto>
                    \<lparr>cached_value = v, expiresAt = now + revalidate, tags = tgs\<rparr>)))
      in case store (opn, keyParts) of
           None \<Rightarrow> miss
         | Some e \<Rightarrow> (if now < expiresAt e then Inr (cached_value e, store) else miss))"

text \<open>A hit: the store holds an entry for the key that has not expired.\<close>

definition cache_hit :: "cache_store \<Rightarrow> operation \<times> string list \<Rightarrow> nat \<Rightarrow> bool" where
  "cache_hit store k now = (case store k of None \<Rightarrow> False | Some e \<Rightarrow> now < expiresAt e)"

definition revalidateTag :: "string \<Rightarrow> cache_store \<Rightarrow> cache_store" where
  "revalidateTag tg store =
     (\<lambda>k. case store k of None \<Rightarrow> None | Some e \<Rightarrow> (if tg \<in> set (tags e) then None else Some e))"

definition getTaskCountByStatus :: "'f storage \<Rightarrow> string \<Rightarrow> cache_store \<Rightarrow> nat \<Rightarrow> error + cached \<times> cache_store" where
  "getTaskCountByStatus db st store now =
     unstable_cache (and_then (getTaskCountByStatus_callback db st) (\<lambda>n. Inr (Count n)))
       CountByStatus [''task-status-'' @ st]
       900 [''task-count'', ''task-status-'' @ st] store now"

definition getTaskCountByPriority :: "'f storage \<Rightarrow> string \<Rightarrow> cache_store \<Rightarrow> nat \<Rightarrow> error + cached \<times> cache_store" where
  "getTaskCountByPriority db pr store now =
     unstable_cache (and_then (getTaskCountByPriority_callback db pr) (\<lambda>n. Inr (Count n)))
       CountByPriority [''task-priority-'' @ pr]
       900 [''task-count'', ''task-priority-'' @ pr] store now"

definition getTaskStatusCounts :: "'f storage \<Rightarrow> cache_store \<Rightarrow> nat \<Rightarrow> error + cached \<times> cache_store" where
  "getTaskStatusCounts db store now =
     unstable_cache (and_then (getTaskStatusCounts_callback db) (\<lambda>m. Inr (Counts m)))
       StatusCounts [''task-status-counts'']
       900 [''task-count'', ''task-status-counts''] store now"

definition getTaskPriorityCounts :: "'f storage \<Rightarrow> cache_store \<Rightarrow> nat \<Rightarrow> error + cached \<times> cache_store" where
  "getTaskPriorityCounts db store now =
     unstable_cache (and_then (getTaskPriorityCounts_callback db) (\<lambda>m. Inr (Counts m)))
       PriorityCounts [''task-priority-counts'']
       900 [''task-count'', ''task-priority-counts''] store now"

section \<open>Sample data\<close>

text \<open>
  A concrete instance to run the operations on: \<^verbatim>\<open>filterColumn\<close> as equality of a text
  column with the raw value, no date bounds, three tasks.
\<close>

definition sample_filterColumn :: "(column \<times> string) filterColumn" where
  "sample_filterColumn c v sel = Inr (Some (Atom (Filter (c, v))))"

fun sample_sat :: "(column \<times> string) atom \<Rightarrow> Task \<Rightarrow> bool" where
  "sample_sat (Filter (c, v)) r = (column_key c r = text_key v)"
| "sample_sat (Gte c d) r = True"
| "sample_sat (Lte c d) r = True"

definition task_a :: Task where
  "task_a = \<lparr>task_id = ''a'', task_title = ''x'', task_status = ''todo'', task_priority = ''low'',
             task_createdAt = 2\<rparr>"

definition task_b :: Task where
  "task_b = \<lparr>task_id = ''b'', task_title = ''y'', task_status = ''done'', task_priority = ''low'',
             task_createdAt = 1\<rparr>"

definition task_c :: Task where
  "task_c = \<lparr>task_id = ''c'', task_title = ''z'', task_status = ''done'', task_priority = ''high'',
             task_createdAt = 3\<rparr>"

definition sample_db :: "(column \<times> string) storage" where
  "sample_db = \<lparr>table = [task_a, task_b, task_c], sat = sample_sat, fault = (\<lambda>st. None)\<rparr>"

definition empty_db :: "(column \<times> string) storage" where
  "empty_db = \<lparr>table = [], sat = sample_sat, fault = (\<lambda>st. None)\<rparr>"

definition failing_db :: "(column \<times> string) storage" where
  "failing_db = \<lparr>table = [task_a, task_b, task_c], sat = sample_sat,
                  fault = (\<lambda>st. Some (StorageError ''connection lost''))\<rparr>"

definition sample_input :: GetTasksSchema where
  "sample_input = \<lparr>page = 2, per_page = 2, sort_str = None, title = None, status = None,
                    priority = None, from_date = None, to_date = None, operator = None\<rparr>"

definition xor_input :: GetTasksSchema where
  "xor_input = \<lparr>page = 1, per_page = 10, sort_str = None, title = Some ''x'',
                 status = Some ''done'', priority = None, from_date = None, to_date = None,
                 operator = Some ''xor''\<rparr>"

definition and_input :: GetTasksSchema where
  "and_input = \<lparr>page = 1, per_page = 10, sort_str = None, title = Some ''x'',
                 status = Some ''done'', priority = None, from_date = None, to_date = None,
                 operator = Some ''and''\<rparr>"

definition or_input :: GetTasksSchema where
  "or_input = \<lparr>page = 1, per_page = 10, sort_str = None, title = Some ''x'',
                status = Some ''done'', priority = None, from_date = None, to_date = None,
                operator = Some ''or''\<rparr>"

definition first_page_input :: GetTasksSchema where
  "first_page_input = \<lparr>page = 1, per_page = 10, sort_str = None, title = None, status = None,
                        priority = None, from_date = None, to_date = None, operator = None\<rparr>"

definition bogus_sort_input :: GetTasksSchema where
  "bogus_sort_input = \<lparr>page = 1, per_page = 10, sort_str = Some ''bogus.asc'', title = None,
                        status = None, priority = None, from_date = None, to_date = None,
                        operator = None\<rparr>"

definition inherited_sort_input :: GetTasksSchema where
  "inherited_sort_input = \<lparr>page = 1, per_page = 10, sort_str = Some ''toString.asc'',
                            title = None, status = None, priority = None, from_date = None,
                            to_date = None, operator = None\<rparr>"

definition past_last_input :: GetTasksSchema where
  "past_last_input = \<lparr>page = 3, per_page = 2, sort_str = None, title = None, status = None,
                       priority = None, from_date = None, to_date = None, operator = None\<rparr>"

section \<open>Basic facts\<close>

lemma and_then_Inl [simp]: "and_then (Inl e) f = Inl e"
  by (simp add: and_then_def)

lemma and_then_Inr [simp]: "and_then (Inr v) f = f v"
  by (simp add: and_then_def)

lemma and_then_eq_Inr: "and_then m f = Inr r \<longleftrightarrow> (\<exists>v. m = Inr v \<and> f v = Inr r)"
  by (cases m) simp_all

lemma try_catch_Inl [simp]: "try_catch (Inl e) h = Inr (h e)"
  by (simp add: try_catch_def)

lemma try_catch_Inr [simp]: "try_catch (Inr v) h = Inr v"
  by (simp add: try_catch_def)

lemma guard_eq_Inr: "guard db st = Inr u \<longleftrightarrow> fault db st = None"
  by (simp add: guard_def split: option.splits)

lemma guard_fault: "fault db st = Some e \<Longrightarrow> guard db st = Inl e"
  by (simp add: guard_def)

lemma math_ceil_div_int:
  "math_ceil_div tot pp =
     (if pp = 0 then (if tot = 0 then NaN else PosInfinity) else Fin (- ((- int tot) div pp)))"
proof -
  have "\<lceil>real tot / real_of_int pp\<rceil> = - ((- int tot) div pp)"
    using ceiling_divide_eq_div [of "int tot" pp] by simp
  then show ?thesis by (simp add: math_ceil_div_def)
qed

lemma transaction_eq_Inr:
  "transaction db body = Inr r \<longleftrightarrow> fault db Begin = None \<and> body = Inr r \<and> fault db Commit = None"
  by (cases body) (auto simp: transaction_def and_then_eq_Inr guard_eq_Inr)

lemma select_rows_eq_Inr:
  "select_rows db w ob lmt ofs = Inr rows \<longleftrightarrow>
     fault db (SelectRows w ob lmt ofs) = None \<and> 0 \<le> lmt \<and> 0 \<le> ofs \<and>
     rows = take (nat lmt) (drop (nat ofs) (order_rows ob (filter (matches db w) (table db))))"
  by (auto simp: select_rows_def and_then_eq_Inr guard_eq_Inr)

lemma select_count_eq_Inr:
  "select_count db w = Inr res \<longleftrightarrow>
     fault db (SelectCount w) = None \<and> res = [length (filter (matches db w) (table db))]"
  by (auto simp: select_count_def and_then_eq_Inr guard_eq_Inr)

lemma getTasks_body_success:
  assumes "getTasks_body fc db input = Inr r"
  shows "fault db Begin = None \<and> fault db Commit = None \<and>
         fault db (SelectRows (getTasks_where fc input) (getTasks_orderBy input) (per_page input)
                     ((page input - 1) * per_page input)) = None \<and>
         fault db (SelectCount (getTasks_where fc input)) = None \<and>
         0 \<le> per_page input \<and> 0 \<le> (page input - 1) * per_page input \<and>
         data r = take (nat (per_page input)) (drop (nat ((page input - 1) * per_page input))
                    (order_rows (getTasks_orderBy input)
                       (filter (matches db (getTasks_where fc input)) (table db)))) \<and>
         pageCount r = math_ceil_div (length (filter (matches db (getTasks_where fc input)) (table db)))
                         (per_page input)"
proof -
  obtain column ord where so: "sort_parts (sort_str input) = (column, ord)"
    by (cases "sort_parts (sort_str input)")
  from assms so obtain exprs where ex: "expressions fc input = Inr exprs"
    by (auto simp: getTasks_body_def and_then_eq_Inr)
  have wh: "getTasks_where fc input = where_clause (operator input) exprs"
    by (simp add: getTasks_where_def ex)
  have ob: "getTasks_orderBy input = order_by_expr column ord"
    by (simp add: getTasks_orderBy_def so)
  from assms so ex show ?thesis
    unfolding wh ob
    by (auto simp: getTasks_body_def Let_def and_then_eq_Inr transaction_eq_Inr
        select_rows_eq_Inr select_count_eq_Inr)
qed

lemma getTasks_returns: "\<exists>r. getTasks fc db input = Inr r"
  by (cases "getTasks_body fc db input") (simp_all add: getTasks_def)

text \<open>The equations that run the operations on the sample data.\<close>

lemmas sample_defs =
  sample_db_def empty_db_def failing_db_def sample_input_def xor_input_def bogus_sort_input_def
  and_input_def or_input_def first_page_input_def
  inherited_sort_input_def past_last_input_def task_a_def task_b_def task_c_def sample_filterColumn_def

lemmas run_defs =
  getTasks_def getTasks_body_def expressions_def filter_term_def truthy_def where_clause_def
  and_sql_def or_sql_def present_def transaction_def guard_def select_rows_def select_count_def
  matches_def sort_parts_def element_def order_by_expr_def tasks_def object_prototype_def
  math_ceil_div_int text_key_def getTasks_where_def getTasks_orderBy_def matching_rows_def

text \<open>The meaning of the two combinators, and of the fallback ordering term.\<close>

lemma set_present: "set (present xs) = {c. Some c \<in> set xs}"
  by (induction xs) (auto simp: present_def split: option.splits)

lemma matches_and_sql:
  "matches db (and_sql es) r \<longleftrightarrow> (\<forall>c \<in> set (present es). eval_sql (sat db) c r)"
  by (cases "present es") (simp_all add: matches_def and_sql_def list_all_iff)

lemma matches_or_sql:
  "matches db (or_sql es) r \<longleftrightarrow> present es = [] \<or> (\<exists>c \<in> set (present es). eval_sql (sat db) c r)"
  by (cases "present es") (simp_all add: matches_def or_sql_def list_ex_iff)

lemma order_by_expr_fallback:
  "column = None \<or> (\<exists>c. column = Some c \<and> tasks c = None) \<Longrightarrow>
     order_by_expr column ord = Desc (Column C_id)"
  by (auto simp: order_by_expr_def truthy_def split: option.splits)

lemma length_order_rows [simp]: "length (order_rows ob rs) = length rs"
  by (cases "(ob, rs)" rule: order_rows.cases) simp_all

text \<open>The body of the \<^verbatim>\<open>try\<close> block succeeds exactly when nothing is rejected.\<close>

lemma order_rows_Nil [simp]: "order_rows ob [] = []"
  by (cases "(ob, [] :: Task list)" rule: order_rows.cases) simp_all

lemma rejects_iff: "rejects db st \<longleftrightarrow> fault db st \<noteq> None"
  by (simp add: rejects_def split: option.splits)

lemma getTasks_body_run:
  assumes "expressions fc input = Inr exprs" and "\<not> storage_rejects fc db input"
  shows "getTasks_body fc db input =
           Inr \<lparr>data = take (nat (per_page input)) (drop (nat ((page input - 1) * per_page input))
                          (order_rows (getTasks_orderBy input) (matching_rows fc db input))),
                pageCount = math_ceil_div (length (matching_rows fc db input)) (per_page input)\<rparr>"
proof -
  obtain column ord where so: "sort_parts (sort_str input) = (column, ord)"
    by (cases "sort_parts (sort_str input)")
  have wh: "where_clause (operator input) exprs = getTasks_where fc input"
    by (simp add: getTasks_where_def assms(1))
  have ob: "order_by_expr column ord = getTasks_orderBy input"
    by (simp add: getTasks_orderBy_def so)
  from assms(2) have f: "fault db Begin = None" "fault db Commit = None"
    "fault db (SelectRows (getTasks_where fc input) (getTasks_orderBy input) (per_page input)
                 ((page input - 1) * per_page input)) = None"
    "fault db (SelectCount (getTasks_where fc input)) = None"
    "\<not> per_page input < 0" "\<not> (page input - 1) * per_page input < 0"
    by (simp_all add: storage_rejects_def rejects_iff)
  show ?thesis
    using f
    by (simp add: getTasks_body_def so assms(1) wh ob transaction_def select_rows_def
        select_count_def guard_def matching_rows_def Let_def)
qed


section \<open>Properties of getTasks\<close>

text \<open>
  Claim C1. \<^verbatim>\<open>getTasks\<close> never propagates an exception: for every \<^verbatim>\<open>filterColumn\<close>,
  storage and request it returns a value; whenever the \<^verbatim>\<open>try\<close> block throws, and in
  particular whenever the engine rejects the begin of the transaction, the row fetch, the
  count fetch or the commit, the value is the empty result \<^verbatim>\<open>{data: [], pageCount: 0}\<close>.
\<close>

theorem getTasks_never_throws:
  "(\<exists>r. getTasks fc db input = Inr r) \<and>
   ((\<exists>e. getTasks_body fc db input = Inl e) \<longrightarrow>
      getTasks fc db input = Inr \<lparr>data = [], pageCount = Fin 0\<rparr>) \<and>
   (fault db Begin \<noteq> None \<or>
    fault db (SelectRows (getTasks_where fc input) (getTasks_orderBy input) (per_page input)
                ((page input - 1) * per_page input)) \<noteq> None \<or>
    fault db (SelectCount (getTasks_where fc input)) \<noteq> None \<or>
    fault db Commit \<noteq> None \<longrightarrow>
      getTasks fc db input = Inr \<lparr>data = [], pageCount = Fin 0\<rparr>)"
proof (cases "getTasks_body fc db input")
  case (Inl e)
  then show ?thesis by (simp add: getTasks_def)
next
  case (Inr r)
  from getTasks_body_success [OF Inr] Inr show ?thesis
    by (simp add: getTasks_def)
qed

text \<open>The engine loses its connection: every statement fails, the result is empty.\<close>

theorem getTasks_never_throws_witness:
  "fault failing_db Commit \<noteq> None \<and>
   getTasks sample_filterColumn failing_db sample_input = Inr \<lparr>data = [], pageCount = Fin 0\<rparr>"
  using getTasks_never_throws [of sample_filterColumn failing_db sample_input]
  by (simp add: failing_db_def)

text \<open>
  Claim C2. For a request with \<open>page \<ge> 1\<close> and \<open>per_page \<ge> 1\<close>, when
  \<^verbatim>\<open>filterColumn\<close> returns and the engine rejects none of the four statements,
  \<^verbatim>\<open>getTasks\<close> returns the \<open>per_page\<close> rows after the first \<open>(page - 1) * per_page\<close>
  matching rows in order, and \<open>pageCount\<close> is the ceiling of the number of matching
  rows divided by \<open>per_page\<close>; with no matching row the result is no rows and
  \<open>pageCount = 0\<close>.
\<close>

theorem getTasks_pagination:
  assumes "1 \<le> page input" and "1 \<le> per_page input"
    and "expressions fc input = Inr exprs"
    and "fault db Begin = None"
    and "fault db (SelectRows (getTasks_where fc input) (getTasks_orderBy input) (per_page input)
                     ((page input - 1) * per_page input)) = None"
    and "fault db (SelectCount (getTasks_where fc input)) = None"
    and "fault db Commit = None"
  shows "getTasks fc db input =
           Inr \<lparr>data = take (nat (per_page input)) (drop (nat ((page input - 1) * per_page input))
                          (order_rows (getTasks_orderBy input) (matching_rows fc db input))),
                pageCount = Fin \<lceil>real (length (matching_rows fc db input))
                                   / real_of_int (per_page input)\<rceil>\<rparr> \<and>
         (length (matching_rows fc db input) = 0 \<longrightarrow>
            getTasks fc db input = Inr \<lparr>data = [], pageCount = Fin 0\<rparr>)"
proof -
  have off: "0 \<le> (page input - 1) * per_page input"
    using assms(1,2) by simp
  have nr: "\<not> storage_rejects fc db input"
    using assms off by (simp add: storage_rejects_def rejects_iff not_less)
  have pp: "per_page input \<noteq> 0" using assms(2) by simp
  have g: "getTasks fc db input =
           Inr \<lparr>data = take (nat (per_page input)) (drop (nat ((page input - 1) * per_page input))
                          (order_rows (getTasks_orderBy input) (matching_rows fc db input))),
                pageCount = Fin \<lceil>real (length (matching_rows fc db input))
                                   / real_of_int (per_page input)\<rceil>\<rparr>"
    using getTasks_body_run [OF assms(3) nr] pp
    by (simp add: getTasks_def math_ceil_div_def)
  have z: "getTasks fc db input = Inr \<lparr>data = [], pageCount = Fin 0\<rparr>"
    if "length (matching_rows fc db input) = 0"
  proof -
    from that have "matching_rows fc db input = []" by simp
    with g show ?thesis by simp
  qed
  from g z show ?thesis by blast
qed

text \<open>Page 2 of three tasks, two to a page: offset 2, one row, two pages.\<close>

theorem getTasks_pagination_witness:
  "1 \<le> page sample_input \<and> 1 \<le> per_page sample_input \<and>
   expressions sample_filterColumn sample_input = Inr [None, None, None, None, None] \<and>
   fault sample_db Begin = None \<and> fault sample_db Commit = None \<and>
   (page sample_input - 1) * per_page sample_input = 2 \<and>
   length (matching_rows sample_filterColumn sample_db sample_input) = 3 \<and>
   getTasks sample_filterColumn sample_db sample_input = Inr \<lparr>data = [task_b], pageCount = Fin 2\<rparr>"
proof -
  have p: "1 \<le> page sample_input" and q: "1 \<le> per_page sample_input"
    by (simp_all add: sample_input_def)
  have e: "expressions sample_filterColumn sample_input = Inr [None, None, None, None, None]"
    by (simp add: expressions_def filter_term_def truthy_def sample_input_def)
  have f: "fault sample_db st = None" for st
    by (simp add: sample_db_def)
  have o: "(page sample_input - 1) * per_page sample_input = 2"
    by (simp add: sample_input_def)
  have m: "matching_rows sample_filterColumn sample_db sample_input = [task_a, task_b, task_c]"
    by (simp add: run_defs sample_defs)
  have r: "take (nat (per_page sample_input)) (drop (nat ((page sample_input - 1) * per_page sample_input))
             (order_rows (getTasks_orderBy sample_input) [task_a, task_b, task_c])) = [task_b]"
    by (simp add: run_defs sample_defs)
  have c: "\<lceil>real (length [task_a, task_b, task_c]) / real_of_int (per_page sample_input)\<rceil> = 2"
    by (simp add: sample_input_def)
  from getTasks_pagination [OF p q e f f f f]
  have "getTasks sample_filterColumn sample_db sample_input = Inr \<lparr>data = [task_b], pageCount = Fin 2\<rparr>"
    unfolding m r c by simp
  with p q e f o m show ?thesis by simp
qed

text \<open>
  Claim C3, as the code has it. The present predicates are the elements of
  \<^verbatim>\<open>expressions\<close> that are not \<^verbatim>\<open>undefined\<close>. When the combinator is unset, empty or
  \<^verbatim>\<open>"and"\<close>, the \<^verbatim>\<open>where\<close> clause is their conjunction: a row matches when it
  satisfies each of them. For every other combinator, \<^verbatim>\<open>"or"\<close> and any unrecognized
  string alike, the clause is their disjunction: a row matches when it satisfies one of
  them, or when there is none.
\<close>

theorem getTasks_where_combinator:
  assumes "expressions fc input = Inr exprs"
  shows "(operator input = None \<or> operator input = Some [] \<or> operator input = Some ''and'' \<longrightarrow>
            getTasks_where fc input = and_sql exprs \<and>
            (matches db (getTasks_where fc input) r \<longleftrightarrow>
               (\<forall>c \<in> set (present exprs). eval_sql (sat db) c r))) \<and>
         (operator input \<noteq> None \<and> operator input \<noteq> Some [] \<and> operator input \<noteq> Some ''and'' \<longrightarrow>
            getTasks_where fc input = or_sql exprs \<and>
            (matches db (getTasks_where fc input) r \<longleftrightarrow>
               present exprs = [] \<or> (\<exists>c \<in> set (present exprs). eval_sql (sat db) c r)))"
proof -
  have w: "getTasks_where fc input = where_clause (operator input) exprs"
    by (simp add: getTasks_where_def assms)
  have a: "operator input = None \<or> operator input = Some [] \<or> operator input = Some ''and''
             \<Longrightarrow> where_clause (operator input) exprs = and_sql exprs"
    by (auto simp: where_clause_def truthy_def)
  have b: "operator input \<noteq> None \<and> operator input \<noteq> Some [] \<and> operator input \<noteq> Some ''and''
             \<Longrightarrow> where_clause (operator input) exprs = or_sql exprs"
    by (auto simp: where_clause_def truthy_def split: option.splits if_splits)
  show ?thesis
    using a b by (auto simp: w matches_and_sql matches_or_sql)
qed

text \<open>A task with the title but not the status asked for: selected under "or", not under "and".\<close>

theorem getTasks_where_combinator_witness:
  "expressions sample_filterColumn or_input
     = Inr [Some (Atom (Filter (C_title, ''x''))), Some (Atom (Filter (C_status, ''done''))),
            None, None, None] \<and>
   getTasks_where sample_filterColumn or_input
     = or_sql [Some (Atom (Filter (C_title, ''x''))), Some (Atom (Filter (C_status, ''done''))),
               None, None, None] \<and>
   matches sample_db (getTasks_where sample_filterColumn or_input) task_a \<and>
   getTasks_where sample_filterColumn and_input
     = and_sql [Some (Atom (Filter (C_title, ''x''))), Some (Atom (Filter (C_status, ''done''))),
                None, None, None] \<and>
   \<not> matches sample_db (getTasks_where sample_filterColumn and_input) task_a"
proof -
  have e1: "expressions sample_filterColumn or_input
     = Inr [Some (Atom (Filter (C_title, ''x''))), Some (Atom (Filter (C_status, ''done''))),
            None, None, None]"
    by (simp add: expressions_def filter_term_def truthy_def or_input_def sample_filterColumn_def)
  have e2: "expressions sample_filterColumn and_input
     = Inr [Some (Atom (Filter (C_title, ''x''))), Some (Atom (Filter (C_status, ''done''))),
            None, None, None]"
    by (simp add: expressions_def filter_term_def truthy_def and_input_def sample_filterColumn_def)
  have o1: "operator or_input \<noteq> None \<and> operator or_input \<noteq> Some [] \<and> operator or_input \<noteq> Some ''and''"
    by (simp add: or_input_def)
  have o2: "operator and_input = Some ''and''"
    by (simp add: and_input_def)
  have p: "present [Some (Atom (Filter (C_title, ''x''))), Some (Atom (Filter (C_status, ''done''))),
                    None, None, None]
             = [Atom (Filter (C_title, ''x'')), Atom (Filter (C_status, ''done''))]"
    by (simp add: present_def)
  have s1: "eval_sql (sat sample_db) (Atom (Filter (C_title, ''x''))) task_a"
    by (simp add: sample_db_def task_a_def)
  have s2: "\<not> eval_sql (sat sample_db) (Atom (Filter (C_status, ''done''))) task_a"
    by (simp add: sample_db_def task_a_def text_key_def)
  from getTasks_where_combinator [OF e1, of sample_db task_a] o1
  have w1: "getTasks_where sample_filterColumn or_input
     = or_sql [Some (Atom (Filter (C_title, ''x''))), Some (Atom (Filter (C_status, ''done''))),
               None, None, None]"
    and m1: "matches sample_db (getTasks_where sample_filterColumn or_input) task_a"
    unfolding p using s1 by auto
  from getTasks_where_combinator [OF e2, of sample_db task_a] o2
  have w2: "getTasks_where sample_filterColumn and_input
     = and_sql [Some (Atom (Filter (C_title, ''x''))), Some (Atom (Filter (C_status, ''done''))),
                None, None, None]"
    and m2: "\<not> matches sample_db (getTasks_where sample_filterColumn and_input) task_a"
    unfolding p using s2 by auto
  from e1 w1 m1 w2 m2 show ?thesis by blast
qed

text \<open>
  The claim's last part fails: \<^verbatim>\<open>"xor"\<close> is no recognized combinator, and the request
  returns all three tasks, among them one that satisfies only one of the two predicates,
  where the same request under \<^verbatim>\<open>"and"\<close> returns none.
\<close>

theorem unrecognized_operator_counterexample:
  "operator xor_input = Some ''xor'' \<and>
   getTasks sample_filterColumn sample_db xor_input
     = Inr \<lparr>data = [task_c, task_a, task_b], pageCount = Fin 1\<rparr> \<and>
   getTasks sample_filterColumn sample_db and_input = Inr \<lparr>data = [], pageCount = Fin 0\<rparr> \<and>
   \<not> (sample_sat (Filter (C_title, ''x'')) task_b \<and> sample_sat (Filter (C_status, ''done'')) task_b)"
  by (simp add: run_defs sample_defs)

text \<open>
  Claim C4, as the code has it. On a successful fetch: when the sort string is absent the
  rows are ordered by creation time descending, on that column alone; when the sort string
  is given and its column part is missing or names no property of \<^verbatim>\<open>tasks\<close>, the rows are
  ordered by identifier descending, on that column alone.
\<close>

theorem getTasks_sort_fallback:
  assumes "getTasks_body fc db input = Inr r"
  shows "(sort_str input = None \<longrightarrow>
            getTasks_orderBy input = Desc (Column C_createdAt) \<and>
            data r = take (nat (per_page input)) (drop (nat ((page input - 1) * per_page input))
                       (rev (sort_key (column_key C_createdAt) (matching_rows fc db input))))) \<and>
         (sort_str input \<noteq> None \<and>
          (\<forall>c. fst (sort_parts (sort_str input)) = Some c \<longrightarrow> tasks c = None) \<longrightarrow>
            getTasks_orderBy input = Desc (Column C_id) \<and>
            data r = take (nat (per_page input)) (drop (nat ((page input - 1) * per_page input))
                       (rev (sort_key (column_key C_id) (matching_rows fc db input)))))"
proof -
  note s = getTasks_body_success [OF assms]
  have d: "data r = take (nat (per_page input)) (drop (nat ((page input - 1) * per_page input))
             (order_rows (getTasks_orderBy input) (matching_rows fc db input)))"
    using s by (simp add: matching_rows_def)
  have a: "getTasks_orderBy input = Desc (Column C_createdAt)" if "sort_str input = None"
    using that
    by (simp add: getTasks_orderBy_def sort_parts_def element_def order_by_expr_def truthy_def tasks_def)
  have b: "getTasks_orderBy input = Desc (Column C_id)"
    if "\<forall>c. fst (sort_parts (sort_str input)) = Some c \<longrightarrow> tasks c = None"
  proof -
    obtain column ord where so: "sort_parts (sort_str input) = (column, ord)"
      by (cases "sort_parts (sort_str input)")
    with that have "column = None \<or> (\<exists>c. column = Some c \<and> tasks c = None)"
      by (cases column) simp_all
    then show ?thesis
      by (simp add: getTasks_orderBy_def so order_by_expr_fallback)
  qed
  show ?thesis
    using a b d by auto
qed

text \<open>The sort string \<^verbatim>\<open>"bogus.asc"\<close> orders by identifier, the absent one by creation time.\<close>

theorem getTasks_sort_fallback_witness:
  "getTasks_body sample_filterColumn sample_db bogus_sort_input
     = Inr \<lparr>data = [task_c, task_b, task_a], pageCount = Fin 1\<rparr> \<and>
   sort_str bogus_sort_input = Some ''bogus.asc'' \<and>
   fst (sort_parts (sort_str bogus_sort_input)) = Some ''bogus'' \<and> tasks ''bogus'' = None \<and>
   getTasks_orderBy bogus_sort_input = Desc (Column C_id) \<and>
   getTasks_body sample_filterColumn sample_db first_page_input
     = Inr \<lparr>data = [task_c, task_a, task_b], pageCount = Fin 1\<rparr> \<and>
   sort_str first_page_input = None \<and>
   getTasks_orderBy first_page_input = Desc (Column C_createdAt)"
proof -
  have b1: "getTasks_body sample_filterColumn sample_db bogus_sort_input
              = Inr \<lparr>data = [task_c, task_b, task_a], pageCount = Fin 1\<rparr>"
    by (simp add: run_defs sample_defs)
  have b2: "getTasks_body sample_filterColumn sample_db first_page_input
              = Inr \<lparr>data = [task_c, task_a, task_b], pageCount = Fin 1\<rparr>"
    by (simp add: run_defs sample_defs)
  have p: "fst (sort_parts (sort_str bogus_sort_input)) = Some ''bogus''"
    by (simp add: bogus_sort_input_def sort_parts_def element_def)
  have t: "tasks ''bogus'' = None"
    by (simp add: tasks_def object_prototype_def)
  have n1: "sort_str bogus_sort_input = Some ''bogus.asc''"
    by (simp add: bogus_sort_input_def)
  have n2: "sort_str first_page_input = None"
    by (simp add: first_page_input_def)
  from getTasks_sort_fallback [OF b1] n1 p t
  have o1: "getTasks_orderBy bogus_sort_input = Desc (Column C_id)" by simp
  from getTasks_sort_fallback [OF b2] n2
  have o2: "getTasks_orderBy first_page_input = Desc (Column C_createdAt)" by simp
  from b1 b2 p t n1 n2 o1 o2 show ?thesis by blast
qed

text \<open>
  The claim fails for an unrecognized column: under \<^verbatim>\<open>"bogus.asc"\<close> the tasks come back
  by identifier descending (c, b, a), while creation time descending with the identifier as
  tie-break is (c, a, b).
\<close>

theorem default_order_counterexample:
  "fst (sort_parts (sort_str bogus_sort_input)) = Some ''bogus'' \<and> tasks ''bogus'' = None \<and>
   getTasks sample_filterColumn sample_db bogus_sort_input
     = Inr \<lparr>data = [task_c, task_b, task_a], pageCount = Fin 1\<rparr> \<and>
   spec_default_order (matching_rows sample_filterColumn sample_db bogus_sort_input)
     = [task_c, task_a, task_b] \<and>
   [task_c, task_b, task_a] \<noteq> [task_c, task_a, task_b]"
  by (simp add: run_defs sample_defs spec_default_order_def)



text \<open>
  Claim C10 at the sort string \<^verbatim>\<open>"toString.asc"\<close>: \<^verbatim>\<open>"toString" in tasks\<close> holds, since
  every object inherits \<^verbatim>\<open>toString\<close>, so the ordering term is built from
  \<^verbatim>\<open>tasks["toString"]\<close>, which is no column of the table.
\<close>

theorem inherited_property_order:
  "sort_str inherited_sort_input = Some ''toString.asc'' \<and>
   tasks ''toString'' = Some (Inherited ''toString'') \<and>
   getTasks_orderBy inherited_sort_input = Asc (Inherited ''toString'')"
  by (simp add: inherited_sort_input_def getTasks_orderBy_def sort_parts_def element_def
      order_by_expr_def truthy_def tasks_def object_prototype_def)

section \<open>Facts about the aggregate operations and the cache\<close>

lemma fold_update_absent:
  "k \<notin> fst ` set xs \<Longrightarrow> fold (\<lambda>(k, n) acc. acc(k \<mapsto> n)) xs m k = m k"
  by (induction xs arbitrary: m) (auto split: prod.splits)

lemma fold_update_Some:
  "fold (\<lambda>(k, n) acc. acc(k \<mapsto> n)) xs m k = Some v \<Longrightarrow> m k = Some v \<or> (k, v) \<in> set xs"
proof (induction xs arbitrary: m)
  case Nil
  then show ?case by simp
next
  case (Cons x xs)
  obtain k' n' where x: "x = (k', n')" by (cases x)
  from Cons.prems have "fold (\<lambda>(k, n) acc. acc(k \<mapsto> n)) xs (m(k' \<mapsto> n')) k = Some v"
    by (simp only: x fold_simps comp_apply case_prod_conv)
  from Cons.IH [OF this] show ?case
    by (auto simp: x split: if_splits)
qed

lemma reduce_counts_absent: "k \<notin> fst ` set res \<Longrightarrow> reduce_counts res k = None"
  by (simp add: reduce_counts_def fold_update_absent)

lemma reduce_counts_Some: "reduce_counts res k = Some v \<Longrightarrow> (k, v) \<in> set res"
  using fold_update_Some [of res Map.empty k v] by (simp add: reduce_counts_def)

lemma group_counts_keys: "fst ` set (group_counts key rs) = key ` set rs"
  by (auto simp: group_counts_def image_iff)

lemma group_counts_Nil [simp]: "group_counts key [] = []"
  by (simp add: group_counts_def)

lemma no_rows_filter: "\<forall>r \<in> set rs. key r \<noteq> v \<Longrightarrow> filter (\<lambda>r. key r = v) rs = []"
  by (induction rs) auto

lemma select_count_eq_cases:
  "(\<exists>e. select_count_eq db c key v = Inl e \<and> fault db (CountWhereEq c v) = Some e) \<or>
   (\<exists>res. select_count_eq db c key v = Inr res \<and> fault db (CountWhereEq c v) = None \<and>
      ((\<forall>r \<in> set (table db). key r \<noteq> v) \<longrightarrow> res = []))"
  by (cases "fault db (CountWhereEq c v)")
    (auto simp: select_count_eq_def guard_def no_rows_filter)

lemma scalar_callback_zero:
  assumes "fault db (CountWhereEq c v) \<noteq> None \<or> (\<forall>r \<in> set (table db). key r \<noteq> v)"
  shows "try_catch (and_then (select_count_eq db c key v) (\<lambda>res. Inr (first_count res))) (\<lambda>err. 0) = Inr 0"
  using select_count_eq_cases [of db c key v] assms
  by (auto simp: first_count_def)

lemma scalar_callback_returns:
  "\<exists>n. try_catch (and_then (select_count_eq db c key v) (\<lambda>res. Inr (first_count res))) (\<lambda>err. 0) = Inr n"
  by (cases "select_count_eq db c key v") simp_all

lemma select_group_count_cases:
  "(\<exists>e. select_group_count db c key = Inl e \<and> fault db (GroupCount c) = Some e) \<or>
   (\<exists>res. select_group_count db c key = Inr res \<and> fault db (GroupCount c) = None \<and>
      fst ` set res \<subseteq> key ` set (table db) \<and> (\<forall>(k, n) \<in> set res. 0 < n))"
proof (cases "fault db (GroupCount c)")
  case None
  have "fst ` set (filter (\<lambda>(k, n). 0 < n) (group_counts key (table db))) \<subseteq> key ` set (table db)"
    using group_counts_keys [of key "table db"] by auto
  with None show ?thesis
    by (auto simp: select_group_count_def guard_def)
next
  case (Some e)
  then show ?thesis by (simp add: select_group_count_def guard_def)
qed

lemma map_callback_cases:
  "fault db (GroupCount c) \<noteq> None \<and>
     try_catch (and_then (select_group_count db c key) (\<lambda>res. Inr (reduce_counts res))) (\<lambda>err. Map.empty)
       = Inr Map.empty \<or>
   (\<exists>m. try_catch (and_then (select_group_count db c key) (\<lambda>res. Inr (reduce_counts res))) (\<lambda>err. Map.empty)
       = Inr m \<and>
      (\<forall>v. (\<forall>r \<in> set (table db). key r \<noteq> v) \<longrightarrow> m v = None) \<and> (\<forall>v. m v \<noteq> Some 0))"
proof -
  from select_group_count_cases [of db c key] show ?thesis
  proof (elim disjE exE conjE)
    fix e assume "select_group_count db c key = Inl e" "fault db (GroupCount c) = Some e"
    then show ?thesis by simp
  next
    fix res
    assume r: "select_group_count db c key = Inr res"
      and k: "fst ` set res \<subseteq> key ` set (table db)" and p: "\<forall>(k, n) \<in> set res. 0 < n"
    have a: "reduce_counts res v = None" if "\<forall>r \<in> set (table db). key r \<noteq> v" for v
    proof -
      have "v \<notin> fst ` set res"
      proof
        assume "v \<in> fst ` set res"
        with k have "v \<in> key ` set (table db)" by (rule subsetD)
        then obtain r where "r \<in> set (table db)" and "v = key r" by (rule imageE)
        with that show False by blast
      qed
      then show ?thesis by (rule reduce_counts_absent)
    qed
    have b: "reduce_counts res v \<noteq> Some 0" for v
    proof
      assume "reduce_counts res v = Some 0"
      then have "(v, 0) \<in> set res" by (rule reduce_counts_Some)
      with p show False by auto
    qed
    from r a b show ?thesis by simp
  qed
qed

lemma unstable_cache_returns:
  "\<exists>v s. unstable_cache (Inr x) opn kp rv tg store now = Inr (v, s)"
  by (simp add: unstable_cache_def Let_def split: option.splits)

lemma unstable_cache_miss:
  "\<not> cache_hit store (opn, kp) now \<Longrightarrow>
     unstable_cache (Inr x) opn kp rv tg store now
       = Inr (x, store((opn, kp) \<mapsto> \<lparr>cached_value = x, expiresAt = now + rv, tags = tg\<rparr>))"
  by (simp add: unstable_cache_def cache_hit_def Let_def split: option.splits)

lemma unstable_cache_created:
  "unstable_cache (Inr x) opn kp rv tg store now = Inr (v, store') \<Longrightarrow> store' \<noteq> store \<Longrightarrow>
     store' = store((opn, kp) \<mapsto> \<lparr>cached_value = v, expiresAt = now + rv, tags = tg\<rparr>)"
  by (auto simp: unstable_cache_def Let_def split: option.splits if_splits)

lemma revalidateTag_removes:
  "tg \<in> set (tags e) \<Longrightarrow> revalidateTag tg (store(k \<mapsto> e)) k = None"
  by (simp add: revalidateTag_def)

lemma revalidateTag_keeps:
  "store k = Some e \<Longrightarrow> tg \<notin> set (tags e) \<Longrightarrow> revalidateTag tg store k = Some e"
  by (simp add: revalidateTag_def)

lemma status_callback_returns: "\<exists>n. getTaskCountByStatus_callback db st = Inr n"
  unfolding getTaskCountByStatus_callback_def by (rule scalar_callback_returns)

lemma priority_callback_returns: "\<exists>n. getTaskCountByPriority_callback db pr = Inr n"
  unfolding getTaskCountByPriority_callback_def by (rule scalar_callback_returns)

lemma status_counts_callback_returns: "\<exists>m. getTaskStatusCounts_callback db = Inr m"
  unfolding getTaskStatusCounts_callback_def
  by (cases "select_group_count db C_status task_status") simp_all

lemma priority_counts_callback_returns: "\<exists>m. getTaskPriorityCounts_callback db = Inr m"
  unfolding getTaskPriorityCounts_callback_def
  by (cases "select_group_count db C_priority task_priority") simp_all

lemma sample_status_counts:
  "\<exists>m. getTaskStatusCounts_callback sample_db = Inr m \<and> m ''done'' = Some 2 \<and> m ''todo'' = Some 1 \<and>
        m ''canceled'' = None"
  by (simp add: getTaskStatusCounts_callback_def select_group_count_def guard_def group_counts_def
      reduce_counts_def sample_defs)

lemma sample_status_count:
  "getTaskCountByStatus_callback sample_db ''done'' = Inr 2 \<and>
   getTaskCountByPriority_callback sample_db ''low'' = Inr 2"
  by (simp add: getTaskCountByStatus_callback_def getTaskCountByPriority_callback_def
      select_count_eq_def guard_def group_counts_def first_count_def sample_defs)

lemma created_entry:
  assumes "unstable_cache (Inr x) opn kp 900 [t1, t2] store now = Inr (v, store')"
    and "store' \<noteq> store"
  shows "store' = store((opn, kp) \<mapsto> \<lparr>cached_value = v, expiresAt = now + 900, tags = [t1, t2]\<rparr>) \<and>
         revalidateTag t1 store' (opn, kp) = None \<and> revalidateTag t2 store' (opn, kp) = None"
proof -
  from unstable_cache_created [OF assms]
  have "store' = store((opn, kp) \<mapsto> \<lparr>cached_value = v, expiresAt = now + 900, tags = [t1, t2]\<rparr>)" .
  then show ?thesis by (simp add: revalidateTag_removes)
qed

lemma sample_status_done:
  "getTaskCountByStatus sample_db ''done'' Map.empty 0
     = Inr (Count 2, [(CountByStatus, [''task-status-done'']) \<mapsto>
                        \<lparr>cached_value = Count 2, expiresAt = 900,
                         tags = [''task-count'', ''task-status-done'']\<rparr>])"
  by (simp add: getTaskCountByStatus_def unstable_cache_def sample_status_count)

section \<open>Properties of the aggregate operations\<close>

text \<open>
  Claim C5. None of the four aggregate operations propagates a storage error: each returns
  a value for every storage, argument, cache content and time. When the engine rejects the
  query, the callbacks of \<^verbatim>\<open>getTaskCountByStatus\<close> and \<^verbatim>\<open>getTaskCountByPriority\<close> return
  \<open>0\<close> and those of \<^verbatim>\<open>getTaskStatusCounts\<close> and \<^verbatim>\<open>getTaskPriorityCounts\<close> the empty
  mapping, and so does the operation whenever the cache holds no live entry for it.
\<close>

theorem aggregates_never_throw:
  "(\<exists>v s. getTaskCountByStatus db st store now = Inr (v, s)) \<and>
   (\<exists>v s. getTaskCountByPriority db pr store now = Inr (v, s)) \<and>
   (\<exists>v s. getTaskStatusCounts db store now = Inr (v, s)) \<and>
   (\<exists>v s. getTaskPriorityCounts db store now = Inr (v, s)) \<and>
   (fault db (CountWhereEq C_status st) \<noteq> None \<longrightarrow>
      getTaskCountByStatus_callback db st = Inr 0 \<and>
      (\<not> cache_hit store (CountByStatus, [''task-status-'' @ st]) now \<longrightarrow>
         (\<exists>s. getTaskCountByStatus db st store now = Inr (Count 0, s)))) \<and>
   (fault db (CountWhereEq C_priority pr) \<noteq> None \<longrightarrow>
      getTaskCountByPriority_callback db pr = Inr 0 \<and>
      (\<not> cache_hit store (CountByPriority, [''task-priority-'' @ pr]) now \<longrightarrow>
         (\<exists>s. getTaskCountByPriority db pr store now = Inr (Count 0, s)))) \<and>
   (fault db (GroupCount C_status) \<noteq> None \<longrightarrow>
      getTaskStatusCounts_callback db = Inr Map.empty \<and>
      (\<not> cache_hit store (StatusCounts, [''task-status-counts'']) now \<longrightarrow>
         (\<exists>s. getTaskStatusCounts db store now = Inr (Counts Map.empty, s)))) \<and>
   (fault db (GroupCount C_priority) \<noteq> None \<longrightarrow>
      getTaskPriorityCounts_callback db = Inr Map.empty \<and>
      (\<not> cache_hit store (PriorityCounts, [''task-priority-counts'']) now \<longrightarrow>
         (\<exists>s. getTaskPriorityCounts db store now = Inr (Counts Map.empty, s))))"
proof (intro conjI impI)
  show "\<exists>v s. getTaskCountByStatus db st store now = Inr (v, s)"
    using status_callback_returns [of db st]
    by (auto simp: getTaskCountByStatus_def intro: unstable_cache_returns)
  show "\<exists>v s. getTaskCountByPriority db pr store now = Inr (v, s)"
    using priority_callback_returns [of db pr]
    by (auto simp: getTaskCountByPriority_def intro: unstable_cache_returns)
  show "\<exists>v s. getTaskStatusCounts db store now = Inr (v, s)"
    using status_counts_callback_returns [of db]
    by (auto simp: getTaskStatusCounts_def intro: unstable_cache_returns)
  show "\<exists>v s. getTaskPriorityCounts db store now = Inr (v, s)"
    using priority_counts_callback_returns [of db]
    by (auto simp: getTaskPriorityCounts_def intro: unstable_cache_returns)
next
  assume f: "fault db (CountWhereEq C_status st) \<noteq> None"
  then show c: "getTaskCountByStatus_callback db st = Inr 0"
    unfolding getTaskCountByStatus_callback_def by (intro scalar_callback_zero) simp
  assume "\<not> cache_hit store (CountByStatus, [''task-status-'' @ st]) now"
  then show "\<exists>s. getTaskCountByStatus db st store now = Inr (Count 0, s)"
    by (simp add: getTaskCountByStatus_def c unstable_cache_miss)
next
  assume f: "fault db (CountWhereEq C_priority pr) \<noteq> None"
  then show c: "getTaskCountByPriority_callback db pr = Inr 0"
    unfolding getTaskCountByPriority_callback_def by (intro scalar_callback_zero) simp
  assume "\<not> cache_hit store (CountByPriority, [''task-priority-'' @ pr]) now"
  then show "\<exists>s. getTaskCountByPriority db pr store now = Inr (Count 0, s)"
    by (simp add: getTaskCountByPriority_def c unstable_cache_miss)
next
  assume f: "fault db (GroupCount C_status) \<noteq> None"
  then show c: "getTaskStatusCounts_callback db = Inr Map.empty"
    by (auto simp: getTaskStatusCounts_callback_def select_group_count_def guard_def)
  assume "\<not> cache_hit store (StatusCounts, [''task-status-counts'']) now"
  then show "\<exists>s. getTaskStatusCounts db store now = Inr (Counts Map.empty, s)"
    by (simp add: getTaskStatusCounts_def c unstable_cache_miss)
next
  assume f: "fault db (GroupCount C_priority) \<noteq> None"
  then show c: "getTaskPriorityCounts_callback db = Inr Map.empty"
    by (auto simp: getTaskPriorityCounts_callback_def select_group_count_def guard_def)
  assume "\<not> cache_hit store (PriorityCounts, [''task-priority-counts'']) now"
  then show "\<exists>s. getTaskPriorityCounts db store now = Inr (Counts Map.empty, s)"
    by (simp add: getTaskPriorityCounts_def c unstable_cache_miss)
qed

text \<open>Every query fails and the cache is empty: the counts are 0, the mappings empty.\<close>

theorem aggregates_never_throw_witness:
  "fault failing_db (CountWhereEq C_status ''done'') \<noteq> None \<and>
   fault failing_db (GroupCount C_priority) \<noteq> None \<and>
   \<not> cache_hit Map.empty (CountByStatus, [''task-status-'' @ ''done'']) 0 \<and>
   getTaskCountByStatus_callback failing_db ''done'' = Inr 0 \<and>
   getTaskCountByPriority_callback failing_db ''low'' = Inr 0 \<and>
   getTaskStatusCounts_callback failing_db = Inr Map.empty \<and>
   getTaskPriorityCounts_callback failing_db = Inr Map.empty \<and>
   (\<exists>s. getTaskCountByStatus failing_db ''done'' Map.empty 0 = Inr (Count 0, s)) \<and>
   (\<exists>s. getTaskPriorityCounts failing_db Map.empty 0 = Inr (Counts Map.empty, s))"
  using aggregates_never_throw [of failing_db "''done''" Map.empty 0 "''low''"]
  by (simp add: failing_db_def cache_hit_def)

text \<open>
  Claim C6, as the code has it. A status (a priority) that no row of the table has is no
  key of the mapping the grouped count computes, and the scalar count computed for it is
  \<open>0\<close>; the operations return these results whenever the cache holds no live entry
  for them. No key of a computed mapping has the count \<open>0\<close>.
\<close>

theorem zero_rows_absent:
  "((\<forall>r \<in> set (table db). task_status r \<noteq> v) \<longrightarrow>
      (\<exists>m. getTaskStatusCounts_callback db = Inr m \<and> m v = None) \<and>
      getTaskCountByStatus_callback db v = Inr 0 \<and>
      (\<not> cache_hit store (StatusCounts, [''task-status-counts'']) now \<longrightarrow>
         (\<exists>m s. getTaskStatusCounts db store now = Inr (Counts m, s) \<and> m v = None)) \<and>
      (\<not> cache_hit store (CountByStatus, [''task-status-'' @ v]) now \<longrightarrow>
         (\<exists>s. getTaskCountByStatus db v store now = Inr (Count 0, s)))) \<and>
   ((\<forall>r \<in> set (table db). task_priority r \<noteq> v) \<longrightarrow>
      (\<exists>m. getTaskPriorityCounts_callback db = Inr m \<and> m v = None) \<and>
      getTaskCountByPriority_callback db v = Inr 0 \<and>
      (\<not> cache_hit store (PriorityCounts, [''task-priority-counts'']) now \<longrightarrow>
         (\<exists>m s. getTaskPriorityCounts db store now = Inr (Counts m, s) \<and> m v = None)) \<and>
      (\<not> cache_hit store (CountByPriority, [''task-priority-'' @ v]) now \<longrightarrow>
         (\<exists>s. getTaskCountByPriority db v store now = Inr (Count 0, s)))) \<and>
   (\<exists>m. getTaskStatusCounts_callback db = Inr m \<and> (\<forall>k. m k \<noteq> Some 0)) \<and>
   (\<exists>m. getTaskPriorityCounts_callback db = Inr m \<and> (\<forall>k. m k \<noteq> Some 0))"
proof -
  have sm: "\<exists>m. getTaskStatusCounts_callback db = Inr m \<and>
              (\<forall>v. (\<forall>r \<in> set (table db). task_status r \<noteq> v) \<longrightarrow> m v = None) \<and>
              (\<forall>k. m k \<noteq> Some 0)"
    using map_callback_cases [of db C_status task_status]
    unfolding getTaskStatusCounts_callback_def by auto
  have pm: "\<exists>m. getTaskPriorityCounts_callback db = Inr m \<and>
              (\<forall>v. (\<forall>r \<in> set (table db). task_priority r \<noteq> v) \<longrightarrow> m v = None) \<and>
              (\<forall>k. m k \<noteq> Some 0)"
    using map_callback_cases [of db C_priority task_priority]
    unfolding getTaskPriorityCounts_callback_def by auto
  have st: "getTaskCountByStatus_callback db v = Inr 0"
    if "\<forall>r \<in> set (table db). task_status r \<noteq> v"
    unfolding getTaskCountByStatus_callback_def using that by (intro scalar_callback_zero) simp
  have pr: "getTaskCountByPriority_callback db v = Inr 0"
    if "\<forall>r \<in> set (table db). task_priority r \<noteq> v"
    unfolding getTaskCountByPriority_callback_def using that by (intro scalar_callback_zero) simp
  have status: "(\<exists>m. getTaskStatusCounts_callback db = Inr m \<and> m v = None) \<and>
      getTaskCountByStatus_callback db v = Inr 0 \<and>
      (\<not> cache_hit store (StatusCounts, [''task-status-counts'']) now \<longrightarrow>
         (\<exists>m s. getTaskStatusCounts db store now = Inr (Counts m, s) \<and> m v = None)) \<and>
      (\<not> cache_hit store (CountByStatus, [''task-status-'' @ v]) now \<longrightarrow>
         (\<exists>s. getTaskCountByStatus db v store now = Inr (Count 0, s)))"
    if z: "\<forall>r \<in> set (table db). task_status r \<noteq> v"
  proof -
    from sm z obtain m where m: "getTaskStatusCounts_callback db = Inr m" "m v = None"
      by blast
    show ?thesis
      using m st [OF z]
      by (auto simp: getTaskStatusCounts_def getTaskCountByStatus_def unstable_cache_miss)
  qed
  have priority: "(\<exists>m. getTaskPriorityCounts_callback db = Inr m \<and> m v = None) \<and>
      getTaskCountByPriority_callback db v = Inr 0 \<and>
      (\<not> cache_hit store (PriorityCounts, [''task-priority-counts'']) now \<longrightarrow>
         (\<exists>m s. getTaskPriorityCounts db store now = Inr (Counts m, s) \<and> m v = None)) \<and>
      (\<not> cache_hit store (CountByPriority, [''task-priority-'' @ v]) now \<longrightarrow>
         (\<exists>s. getTaskCountByPriority db v store now = Inr (Count 0, s)))"
    if z: "\<forall>r \<in> set (table db). task_priority r \<noteq> v"
  proof -
    from pm z obtain m where m: "getTaskPriorityCounts_callback db = Inr m" "m v = None"
      by blast
    show ?thesis
      using m pr [OF z]
      by (auto simp: getTaskPriorityCounts_def getTaskCountByPriority_def unstable_cache_miss)
  qed
  from sm have sm': "\<exists>m. getTaskStatusCounts_callback db = Inr m \<and> (\<forall>k. m k \<noteq> Some 0)"
    by blast
  from pm have pm': "\<exists>m. getTaskPriorityCounts_callback db = Inr m \<and> (\<forall>k. m k \<noteq> Some 0)"
    by blast
  from status priority sm' pm' show ?thesis by blast
qed

text \<open>No sample task is canceled.\<close>

theorem zero_rows_absent_witness:
  "''canceled'' \<notin> set (map task_status (table sample_db)) \<and>
   ''canceled'' \<notin> set (map task_priority (table sample_db)) \<and>
   \<not> cache_hit Map.empty (StatusCounts, [''task-status-counts'']) 0 \<and>
   \<not> cache_hit Map.empty (CountByStatus, [''task-status-'' @ ''canceled'']) 0 \<and>
   (\<exists>m. getTaskStatusCounts_callback sample_db = Inr m \<and> m ''canceled'' = None) \<and>
   getTaskCountByStatus_callback sample_db ''canceled'' = Inr 0 \<and>
   (\<exists>m s. getTaskStatusCounts sample_db Map.empty 0 = Inr (Counts m, s) \<and> m ''canceled'' = None) \<and>
   (\<exists>s. getTaskCountByStatus sample_db ''canceled'' Map.empty 0 = Inr (Count 0, s)) \<and>
   getTaskCountByPriority_callback sample_db ''canceled'' = Inr 0"
proof -
  have a: "\<forall>r \<in> set (table sample_db). task_status r \<noteq> ''canceled''"
    by (simp add: sample_defs)
  have b: "\<forall>r \<in> set (table sample_db). task_priority r \<noteq> ''canceled''"
    by (simp add: sample_defs)
  have c: "\<not> cache_hit Map.empty (StatusCounts, [''task-status-counts'']) 0"
    by (simp add: cache_hit_def)
  have d: "\<not> cache_hit Map.empty (CountByStatus, [''task-status-'' @ ''canceled'']) 0"
    by (simp add: cache_hit_def)
  have a': "''canceled'' \<notin> set (map task_status (table sample_db))"
    by (simp add: sample_defs)
  have b': "''canceled'' \<notin> set (map task_priority (table sample_db))"
    by (simp add: sample_defs)
  note t = zero_rows_absent [of sample_db "''canceled''" Map.empty 0]
  from t a b c d a' b' show ?thesis by blast
qed

text \<open>
  The claim fails for the operations as stated: once \<^verbatim>\<open>getTaskCountByStatus("done")\<close> has
  cached the count 2, the same call ten seconds later on a table without any row still
  returns 2, from the cache.
\<close>

theorem stale_count_counterexample:
  "getTaskCountByStatus sample_db ''done'' Map.empty 0
     = Inr (Count 2, [(CountByStatus, [''task-status-done'']) \<mapsto>
                        \<lparr>cached_value = Count 2, expiresAt = 900,
                         tags = [''task-count'', ''task-status-done'']\<rparr>]) \<and>
   table empty_db = [] \<and>
   getTaskCountByStatus empty_db ''done''
     [(CountByStatus, [''task-status-done'']) \<mapsto>
        \<lparr>cached_value = Count 2, expiresAt = 900, tags = [''task-count'', ''task-status-done'']\<rparr>] 10
     = Inr (Count 2, [(CountByStatus, [''task-status-done'']) \<mapsto>
                        \<lparr>cached_value = Count 2, expiresAt = 900,
                         tags = [''task-count'', ''task-status-done'']\<rparr>]) \<and>
   Count 2 \<noteq> Count 0"
proof -
  let ?s = "[(CountByStatus, [''task-status-done'']) \<mapsto>
              \<lparr>cached_value = Count 2, expiresAt = 900, tags = [''task-count'', ''task-status-done'']\<rparr>]"
  have a: "getTaskCountByStatus sample_db ''done'' Map.empty 0 = Inr (Count 2, ?s)"
    by (rule sample_status_done)
  have b: "table empty_db = []"
    by (simp add: empty_db_def)
  have c: "getTaskCountByStatus empty_db ''done'' ?s 10 = Inr (Count 2, ?s)"
    by (simp add: getTaskCountByStatus_def unstable_cache_def)
  from a b c show ?thesis by simp
qed

text \<open>
  Claim C7, as the code has it. Whenever one of the four aggregate operations changes the
  cache, the change is one entry, under the operation's key, that expires 900 seconds
  after its creation and carries two tags: the shared tag \<^verbatim>\<open>"task-count"\<close> and the
  operation's own tag, \<^verbatim>\<open>"task-status-<value>"\<close>, \<^verbatim>\<open>"task-priority-<value>"\<close>,
  \<^verbatim>\<open>"task-status-counts"\<close> or \<^verbatim>\<open>"task-priority-counts"\<close>. Invalidating either tag
  removes the entry.
\<close>

theorem aggregate_cache_entries:
  "(getTaskCountByStatus db st store now = Inr (v, store') \<and> store' \<noteq> store \<longrightarrow>
      store' = store((CountByStatus, [''task-status-'' @ st]) \<mapsto>
                 \<lparr>cached_value = v, expiresAt = now + 900, tags = [''task-count'', ''task-status-'' @ st]\<rparr>) \<and>
      revalidateTag ''task-count'' store' (CountByStatus, [''task-status-'' @ st]) = None \<and>
      revalidateTag (''task-status-'' @ st) store' (CountByStatus, [''task-status-'' @ st]) = None) \<and>
   (getTaskCountByPriority db pr store now = Inr (v, store') \<and> store' \<noteq> store \<longrightarrow>
      store' = store((CountByPriority, [''task-priority-'' @ pr]) \<mapsto>
                 \<lparr>cached_value = v, expiresAt = now + 900, tags = [''task-count'', ''task-priority-'' @ pr]\<rparr>) \<and>
      revalidateTag ''task-count'' store' (CountByPriority, [''task-priority-'' @ pr]) = None \<and>
      revalidateTag (''task-priority-'' @ pr) store' (CountByPriority, [''task-priority-'' @ pr]) = None) \<and>
   (getTaskStatusCounts db store now = Inr (v, store') \<and> store' \<noteq> store \<longrightarrow>
      store' = store((StatusCounts, [''task-status-counts'']) \<mapsto>
                 \<lparr>cached_value = v, expiresAt = now + 900, tags = [''task-count'', ''task-status-counts'']\<rparr>) \<and>
      revalidateTag ''task-count'' store' (StatusCounts, [''task-status-counts'']) = None \<and>
      revalidateTag ''task-status-counts'' store' (StatusCounts, [''task-status-counts'']) = None) \<and>
   (getTaskPriorityCounts db store now = Inr (v, store') \<and> store' \<noteq> store \<longrightarrow>
      store' = store((PriorityCounts, [''task-priority-counts'']) \<mapsto>
                 \<lparr>cached_value = v, expiresAt = now + 900, tags = [''task-count'', ''task-priority-counts'']\<rparr>) \<and>
      revalidateTag ''task-count'' store' (PriorityCounts, [''task-priority-counts'']) = None \<and>
      revalidateTag ''task-priority-counts'' store' (PriorityCounts, [''task-priority-counts'']) = None)"
proof -
  have a: "getTaskCountByStatus db st store now = Inr (v, store') \<and> store' \<noteq> store \<longrightarrow>
         store' = store((CountByStatus, [''task-status-'' @ st]) \<mapsto>
                    \<lparr>cached_value = v, expiresAt = now + 900, tags = [''task-count'', ''task-status-'' @ st]\<rparr>) \<and>
         revalidateTag ''task-count'' store' (CountByStatus, [''task-status-'' @ st]) = None \<and>
         revalidateTag (''task-status-'' @ st) store' (CountByStatus, [''task-status-'' @ st]) = None"
  proof (intro impI, elim conjE)
    assume r: "getTaskCountByStatus db st store now = Inr (v, store')" and n: "store' \<noteq> store"
    obtain x where "getTaskCountByStatus_callback db st = Inr x"
      using status_callback_returns by blast
    with r have "unstable_cache (Inr (Count x)) CountByStatus [''task-status-'' @ st] 900
                   [''task-count'', ''task-status-'' @ st] store now = Inr (v, store')"
      by (simp add: getTaskCountByStatus_def)
    then show "store' = store((CountByStatus, [''task-status-'' @ st]) \<mapsto>
                     \<lparr>cached_value = v, expiresAt = now + 900, tags = [''task-count'', ''task-status-'' @ st]\<rparr>) \<and>
          revalidateTag ''task-count'' store' (CountByStatus, [''task-status-'' @ st]) = None \<and>
          revalidateTag (''task-status-'' @ st) store' (CountByStatus, [''task-status-'' @ st]) = None"
      using n by (rule created_entry)
  qed
  have b: "getTaskCountByPriority db pr store now = Inr (v, store') \<and> store' \<noteq> store \<longrightarrow>
         store' = store((CountByPriority, [''task-priority-'' @ pr]) \<mapsto>
                    \<lparr>cached_value = v, expiresAt = now + 900, tags = [''task-count'', ''task-priority-'' @ pr]\<rparr>) \<and>
         revalidateTag ''task-count'' store' (CountByPriority, [''task-priority-'' @ pr]) = None \<and>
         revalidateTag (''task-priority-'' @ pr) store' (CountByPriority, [''task-priority-'' @ pr]) = None"
  proof (intro impI, elim conjE)
    assume r: "getTaskCountByPriority db pr store now = Inr (v, store')" and n: "store' \<noteq> store"
    obtain x where "getTaskCountByPriority_callback db pr = Inr x"
      using priority_callback_returns by blast
    with r have "unstable_cache (Inr (Count x)) CountByPriority [''task-priority-'' @ pr] 900
                   [''task-count'', ''task-priority-'' @ pr] store now = Inr (v, store')"
      by (simp add: getTaskCountByPriority_def)
    then show "store' = store((CountByPriority, [''task-priority-'' @ pr]) \<mapsto>
                     \<lparr>cached_value = v, expiresAt = now + 900, tags = [''task-count'', ''task-priority-'' @ pr]\<rparr>) \<and>
          revalidateTag ''task-count'' store' (CountByPriority, [''task-priority-'' @ pr]) = None \<and>
          revalidateTag (''task-priority-'' @ pr) store' (CountByPriority, [''task-priority-'' @ pr]) = None"
      using n by (rule created_entry)
  qed
  have c: "getTaskStatusCounts db store now = Inr (v, store') \<and> store' \<noteq> store \<longrightarrow>
         store' = store((StatusCounts, [''task-status-counts'']) \<mapsto>
                    \<lparr>cached_value = v, expiresAt = now + 900, tags = [''task-count'', ''task-status-counts'']\<rparr>) \<and>
         revalidateTag ''task-count'' store' (StatusCounts, [''task-status-counts'']) = None \<and>
         revalidateTag ''task-status-counts'' store' (StatusCounts, [''task-status-counts'']) = None"
  proof (intro impI, elim conjE)
    assume r: "getTaskStatusCounts db store now = Inr (v, store')" and n: "store' \<noteq> store"
    obtain x where "getTaskStatusCounts_callback db = Inr x"
      using status_counts_callback_returns by blast
    with r have "unstable_cache (Inr (Counts x)) StatusCounts [''task-status-counts''] 900
                   [''task-count'', ''task-status-counts''] store now = Inr (v, store')"
      by (simp add: getTaskStatusCounts_def)
    then show "store' = store((StatusCounts, [''task-status-counts'']) \<mapsto>
                     \<lparr>cached_value = v, expiresAt = now + 900, tags = [''task-count'', ''task-status-counts'']\<rparr>) \<and>
          revalidateTag ''task-count'' store' (StatusCounts, [''task-status-counts'']) = None \<and>
          revalidateTag ''task-status-counts'' store' (StatusCounts, [''task-status-counts'']) = None"
      using n by (rule created_entry)
  qed
  have d: "getTaskPriorityCounts db store now = Inr (v, store') \<and> store' \<noteq> store \<longrightarrow>
         store' = store((PriorityCounts, [''task-priority-counts'']) \<mapsto>
                    \<lparr>cached_value = v, expiresAt = now + 900, tags = [''task-count'', ''task-priority-counts'']\<rparr>) \<and>
         revalidateTag ''task-count'' store' (PriorityCounts, [''task-priority-counts'']) = None \<and>
         revalidateTag ''task-priority-counts'' store' (PriorityCounts, [''task-priority-counts'']) = None"
  proof (intro impI, elim conjE)
    assume r: "getTaskPriorityCounts db store now = Inr (v, store')" and n: "store' \<noteq> store"
    obtain x where "getTaskPriorityCounts_callback db = Inr x"
      using priority_counts_callback_returns by blast
    with r have "unstable_cache (Inr (Counts x)) PriorityCounts [''task-priority-counts''] 900
                   [''task-count'', ''task-priority-counts''] store now = Inr (v, store')"
      by (simp add: getTaskPriorityCounts_def)
    then show "store' = store((PriorityCounts, [''task-priority-counts'']) \<mapsto>
                     \<lparr>cached_value = v, expiresAt = now + 900, tags = [''task-count'', ''task-priority-counts'']\<rparr>) \<and>
          revalidateTag ''task-count'' store' (PriorityCounts, [''task-priority-counts'']) = None \<and>
          revalidateTag ''task-priority-counts'' store' (PriorityCounts, [''task-priority-counts'']) = None"
      using n by (rule created_entry)
  qed
  show ?thesis
    by (rule conjI [OF a conjI [OF b conjI [OF c d]]])
qed

text \<open>The first count of the tasks that are done, on an empty cache at time 0.\<close>

theorem aggregate_cache_entries_witness:
  "getTaskCountByStatus sample_db ''done'' Map.empty 0
     = Inr (Count 2, [(CountByStatus, [''task-status-done'']) \<mapsto>
                        \<lparr>cached_value = Count 2, expiresAt = 900,
                         tags = [''task-count'', ''task-status-done'']\<rparr>]) \<and>
   revalidateTag ''task-count''
     [(CountByStatus, [''task-status-done'']) \<mapsto>
        \<lparr>cached_value = Count 2, expiresAt = 900, tags = [''task-count'', ''task-status-done'']\<rparr>]
     (CountByStatus, [''task-status-done'']) = None \<and>
   revalidateTag ''task-status-done''
     [(CountByStatus, [''task-status-done'']) \<mapsto>
        \<lparr>cached_value = Count 2, expiresAt = 900, tags = [''task-count'', ''task-status-done'']\<rparr>]
     (CountByStatus, [''task-status-done'']) = None"
proof -
  let ?s = "[(CountByStatus, [''task-status-done'']) \<mapsto>
              \<lparr>cached_value = Count 2, expiresAt = 900, tags = [''task-count'', ''task-status-done'']\<rparr>]"
  have r: "getTaskCountByStatus sample_db ''done'' Map.empty 0 = Inr (Count 2, ?s)"
    by (rule sample_status_done)
  have n: "?s \<noteq> Map.empty"
    by simp
  from aggregate_cache_entries [of sample_db "''done''" Map.empty 0 "Count 2" ?s] r n
  have "revalidateTag ''task-count'' ?s (CountByStatus, [''task-status-'' @ ''done'']) = None"
    and "revalidateTag (''task-status-'' @ ''done'') ?s (CountByStatus, [''task-status-'' @ ''done'']) = None"
    by blast+
  with r show ?thesis by simp
qed

text \<open>
  The claim's tag names fail: the entry of \<^verbatim>\<open>getTaskCountByStatus("done")\<close> carries neither
  \<^verbatim>\<open>"aggregate-invalidation"\<close> nor \<^verbatim>\<open>"status:done"\<close>, and invalidating
  \<^verbatim>\<open>"aggregate-invalidation"\<close> leaves it in the cache.
\<close>

theorem aggregate_tags_counterexample:
  "getTaskCountByStatus sample_db ''done'' Map.empty 0
     = Inr (Count 2, [(CountByStatus, [''task-status-done'']) \<mapsto>
                        \<lparr>cached_value = Count 2, expiresAt = 900,
                         tags = [''task-count'', ''task-status-done'']\<rparr>]) \<and>
   ''aggregate-invalidation'' \<notin> set [''task-count'', ''task-status-done''] \<and>
   ''status:done'' \<notin> set [''task-count'', ''task-status-done''] \<and>
   revalidateTag ''aggregate-invalidation''
     [(CountByStatus, [''task-status-done'']) \<mapsto>
        \<lparr>cached_value = Count 2, expiresAt = 900, tags = [''task-count'', ''task-status-done'']\<rparr>]
     (CountByStatus, [''task-status-done''])
     = Some \<lparr>cached_value = Count 2, expiresAt = 900, tags = [''task-count'', ''task-status-done'']\<rparr>"
  by (simp add: sample_status_done revalidateTag_def)

end
